theory Spec2Isabelle
  imports Main
begin

section \<open>Data model\<close>

text \<open>
  The API keeps two MongoDB collections, \<open>users\<close> and \<open>profiles\<close>, behind Mongoose
  models. A collection is a list of documents in natural order: \<open>findOne\<close> answers the
  first document that matches. An ObjectId is a number; how a request string is cast to
  an ObjectId and how an ObjectId prints (\<open>user.id\<close>) belong to Mongoose and are
  parameters of the model (record \<open>libs\<close> below).

  The store is taken to be reachable: every query returns. A connection failure, which
  any handler would turn into its 500 answer, is not part of the model.
\<close>

type_synonym objectId = nat

text \<open>
  Modelled from the spec: \<open>models/User.ts\<close> is not among the sources. The fields are the
  ones the route handlers read: \<open>user.id\<close>, \<open>findOne({ email })\<close>, \<open>user.password\<close>,
  \<open>select("-password")\<close> and \<open>populate("user", ["avatar", "email"])\<close>.
\<close>

record user =
  user_id :: objectId
  email :: string
  password :: string
  avatar :: string

text \<open>\<open>models/Profile.ts\<close>: \<open>IProfile\<close> and \<open>profileSchema\<close> (\<open>date\<close> is a time stamp).\<close>

record profile =
  profile_id :: objectId
  user :: objectId
  firstName :: string
  lastName :: string
  username :: string
  date :: nat

record store =
  users :: "user list"
  profiles :: "profile list"

text \<open>
  A value of a parsed request (\<open>server.ts\<close> installs \<open>bodyParser.json()\<close> and
  \<open>bodyParser.urlencoded\<close>): any JSON value. Numbers are kept as integers; nothing
  below looks inside a number.
\<close>

datatype json =
    JNull
  | JBool bool
  | JNum int
  | JStr string
  | JArr "json list"
  | JObj "(string \<times> json) list"

text \<open>\<open>types/Payload\<close>, as \<open>types/Request.ts\<close> documents it: \<open>userId: string\<close>.\<close>

record payload =
  userId :: string

type_synonym token = string

text \<open>\<open>expiresIn\<close> of \<open>jwt.sign\<close>: a number of seconds or a time span string.\<close>

datatype expiresIn = Seconds nat | Span string

text \<open>
  \<open>jwt.sign\<close> with a callback: the token, an error handed to the callback before
  \<open>jwt.sign\<close> returns, or an error handed to it later.
\<close>

datatype sign_result = Signed token | SignErrorSync | SignErrorAsync

text \<open>
  The library functions the handlers call: \<open>isEmail\<close> of express-validator on the value
  of a field, \<open>bcrypt.compare\<close> on two strings, \<open>jwt.sign\<close> and \<open>jwt.verify\<close> of
  jsonwebtoken, Mongoose's cast of a string to an ObjectId (\<open>None\<close>: a CastError of
  kind \<open>"ObjectId"\<close>), the string form of an ObjectId, and Mongoose's reading of a
  query value on the String path \<open>email\<close> when the value is not a string (\<open>undefined\<close>,
  an array, an object of operators): the condition it puts on the stored string, or
  \<open>None\<close> for a CastError.
\<close>

record libs =
  isEmail :: "json \<Rightarrow> bool"
  bcrypt_compare :: "string \<Rightarrow> string \<Rightarrow> bool"
  jwt_sign :: "payload \<Rightarrow> string \<Rightarrow> expiresIn \<Rightarrow> sign_result"
  jwt_verify :: "token \<Rightarrow> string \<Rightarrow> payload option"
  castObjectId :: "string \<Rightarrow> objectId option"
  toHexString :: "objectId \<Rightarrow> string"
  castQuery :: "json option \<Rightarrow> (string \<Rightarrow> bool) option"

text \<open>\<open>config.get\<close> throws on a key that is not configured: \<open>None\<close>.\<close>

record config =
  jwtSecret :: "string option"
  jwtExpiration :: "expiresIn option"

subsection \<open>Requests and responses\<close>

text \<open>
  An entry of \<open>validationResult(req).array()\<close> carries the parameter, the value sent
  (\<open>None\<close>: \<open>undefined\<close>) and the message; the handlers' own error entries carry a
  message only.
\<close>

datatype error_item = FieldError string "json option" string | MsgOnly string

text \<open>A User after \<open>select("-password")\<close>.\<close>

record user_view =
  uv_id :: objectId
  uv_email :: string
  uv_avatar :: string

text \<open>
  A User after \<open>populate("user", ["avatar", "email"])\<close>; Mongoose keeps \<open>_id\<close> in every
  selection.
\<close>

record user_public =
  up_id :: objectId
  up_avatar :: string
  up_email :: string

text \<open>A Profile whose \<open>user\<close> path is populated (\<open>None\<close>: no such User, \<open>null\<close>).\<close>

record populated_profile =
  pp_id :: objectId
  pp_user :: "user_public option"
  pp_firstName :: string
  pp_lastName :: string
  pp_username :: string
  pp_date :: nat

datatype body =
    ErrorsBody "error_item list"
  | MsgBody string
  | TokenBody token
  | UserBody "user_view option"
  | ProfileBody "profile option"
  | PopulatedBody populated_profile
  | ProfilesBody "populated_profile list"
  | TextBody string

text \<open>
  What a handler answers: a status and a body, or nothing when an exception leaves the
  handler outside its \<open>try\<close>.
\<close>

datatype response = Response nat body | NoResponse

definition server_error :: response where
  "server_error = Response 500 (TextBody ''Server Error'')"

definition bad_request :: "string \<Rightarrow> response" where
  "bad_request m = Response 400 (ErrorsBody [MsgOnly m])"

text \<open>
  What \<open>POST api/auth\<close> reads of a request: \<open>req.body.email\<close> and \<open>req.body.password\<close>
  (\<open>None\<close>: \<open>undefined\<close>), and, because \<open>check\<close> validates a field wherever the request
  carries it, the values of \<open>email\<close> and \<open>password\<close> in the cookies, the headers, the
  route parameters and the query string.
\<close>

record login_request =
  body_email :: "json option"
  body_password :: "json option"
  other_email :: "json list"
  other_password :: "json list"

text \<open>The body of \<open>POST api/profile\<close>; a field is absent or a string.\<close>

record profile_body =
  body_firstName :: "string option"
  body_lastName :: "string option"
  body_username :: "string option"

section \<open>Queries on the collections\<close>

definition select_no_password :: "user \<Rightarrow> user_view" where
  "select_no_password u = \<lparr>uv_id = user_id u, uv_email = email u, uv_avatar = avatar u\<rparr>"

definition select_avatar_email :: "user \<Rightarrow> user_public" where
  "select_avatar_email u = \<lparr>up_id = user_id u, up_avatar = avatar u, up_email = email u\<rparr>"

definition find_user_by_email :: "store \<Rightarrow> string \<Rightarrow> user option" where
  "find_user_by_email s e = List.find (\<lambda>u. email u = e) (users s)"

text \<open>\<open>User.findOne({ email })\<close> for any condition on the stored address.\<close>

definition find_user_matching :: "store \<Rightarrow> (string \<Rightarrow> bool) \<Rightarrow> user option" where
  "find_user_matching s P = List.find (\<lambda>u. P (email u)) (users s)"

definition find_user_by_id :: "store \<Rightarrow> objectId \<Rightarrow> user option" where
  "find_user_by_id s i = List.find (\<lambda>u. user_id u = i) (users s)"

definition find_profile_by_user :: "store \<Rightarrow> objectId \<Rightarrow> profile option" where
  "find_profile_by_user s i = List.find (\<lambda>p. user p = i) (profiles s)"

definition populate :: "store \<Rightarrow> profile \<Rightarrow> populated_profile" where
  "populate s p =
     \<lparr>pp_id = profile_id p,
      pp_user = map_option select_avatar_email (find_user_by_id s (user p)),
      pp_firstName = firstName p,
      pp_lastName = lastName p,
      pp_username = username p,
      pp_date = date p\<rparr>"

text \<open>The first document that matches, removed or replaced; the rest as it was.\<close>

primrec remove_first :: "('a \<Rightarrow> bool) \<Rightarrow> 'a list \<Rightarrow> 'a list" where
  "remove_first P [] = []"
| "remove_first P (x # xs) = (if P x then xs else x # remove_first P xs)"

primrec replace_first :: "('a \<Rightarrow> bool) \<Rightarrow> 'a \<Rightarrow> 'a list \<Rightarrow> 'a list" where
  "replace_first P y [] = []"
| "replace_first P y (x # xs) = (if P x then y # xs else x # replace_first P y xs)"

text \<open>
  What a write to \<open>profiles\<close> can throw: the unique index that \<open>unique: true\<close> on
  \<open>username\<close> declares (and the one MongoDB keeps on \<open>_id\<close>) refuses a second document
  with the same key; \<open>save\<close> first validates the \<open>required\<close> paths.
\<close>

datatype store_error = DuplicateKey | ValidationFailed

text \<open>
  \<open>Profile.findOneAndUpdate({ user }, { $set: profileFields }, { new: true })\<close>: the
  first Profile of the user gets the four fields of \<open>profileFields\<close>, unless another
  document holds the username; the updated document is the answer (\<open>null\<close> when the
  user has no Profile).
\<close>

definition findOneAndUpdate ::
  "profile list \<Rightarrow> objectId \<Rightarrow> string \<Rightarrow> string \<Rightarrow> string
     \<Rightarrow> store_error + (profile option \<times> profile list)" where
  "findOneAndUpdate ps i f l n =
     (case List.find (\<lambda>p. user p = i) ps of
        None \<Rightarrow> Inr (None, ps)
      | Some p \<Rightarrow>
          if n \<in> set (map username (remove_first (\<lambda>p. user p = i) ps))
          then Inl DuplicateKey
          else
            (let p' = p\<lparr>user := i, firstName := f, lastName := l, username := n\<rparr>
             in Inr (Some p', replace_first (\<lambda>p. user p = i) p' ps)))"

text \<open>\<open>profile.save()\<close> of a new document.\<close>

definition save :: "profile list \<Rightarrow> profile \<Rightarrow> store_error + profile list" where
  "save ps p =
     (if firstName p = [] \<or> lastName p = [] \<or> username p = [] then Inl ValidationFailed
      else if username p \<in> set (map username ps) \<or> profile_id p \<in> set (map profile_id ps)
      then Inl DuplicateKey
      else Inr (ps @ [p]))"

section \<open>routes/api/auth.ts\<close>

text \<open>
  \<open>GET api/auth\<close>, after the auth middleware has set \<open>req.userId\<close>:
  \<open>User.findById(req.userId).select("-password")\<close>, then \<open>res.json(user)\<close>.
\<close>

definition get_auth :: "libs \<Rightarrow> store \<Rightarrow> string \<Rightarrow> response" where
  "get_auth L s uid =
     (case castObjectId L uid of
        None \<Rightarrow> server_error
      | Some i \<Rightarrow> Response 200 (UserBody (map_option select_no_password (find_user_by_id s i))))"

text \<open>
  The two checks of \<open>POST api/auth\<close>. \<open>check("email", ...).isEmail()\<close>: every value of
  \<open>email\<close> that the request carries must be an email address, and a request that carries
  none fails the check. \<open>check("password", ...).exists()\<close>: the request carries a
  \<open>password\<close> somewhere; any value but \<open>undefined\<close> passes.
\<close>

definition email_values :: "login_request \<Rightarrow> json list" where
  "email_values rq = (case body_email rq of None \<Rightarrow> [] | Some v \<Rightarrow> [v]) @ other_email rq"

definition login_errors :: "libs \<Rightarrow> login_request \<Rightarrow> error_item list" where
  "login_errors L rq =
     (if email_values rq = [] then [FieldError ''email'' None ''Please include a valid email'']
      else map (\<lambda>v. FieldError ''email'' (Some v) ''Please include a valid email'')
             (filter (\<lambda>v. \<not> isEmail L v) (email_values rq)))
     @ (if body_password rq = None \<and> other_password rq = []
        then [FieldError ''password'' None ''Password is required'']
        else [])"

text \<open>The filter \<open>{ email }\<close> that the handler builds from \<open>req.body.email\<close>.\<close>

definition email_query :: "libs \<Rightarrow> json option \<Rightarrow> (string \<Rightarrow> bool) option" where
  "email_query L v =
     (case v of
        Some (JStr e) \<Rightarrow> Some (\<lambda>x. x = e)
      | _ \<Rightarrow> castQuery L v)"

text \<open>
  \<open>POST api/auth\<close>. Everything after the validation runs inside the \<open>try\<close>, whose
  \<open>catch\<close> answers 500 \<open>Server Error\<close>:
  \<^item> a CastError of the query;
  \<^item> \<open>bcrypt.compare(password, user.password)\<close> with a \<open>password\<close> that is not a string
    (\<open>undefined\<close>, a number, \<open>null\<close>, ...): bcryptjs rejects with \<open>Illegal arguments\<close>,
    and does so only after a User was found;
  \<^item> a configuration key that is missing, the arguments of \<open>jwt.sign\<close> being evaluated
    inside the \<open>try\<close>;
  \<^item> a signing error that the callback rethrows before \<open>jwt.sign\<close> returns.
  A signing error handed to the callback later is rethrown outside the \<open>try\<close>.
\<close>

definition login :: "libs \<Rightarrow> config \<Rightarrow> store \<Rightarrow> login_request \<Rightarrow> response" where
  "login L cfg s rq =
     (if login_errors L rq \<noteq> [] then Response 400 (ErrorsBody (login_errors L rq))
      else
        (case email_query L (body_email rq) of
           None \<Rightarrow> server_error
         | Some P \<Rightarrow>
             (case find_user_matching s P of
                None \<Rightarrow> bad_request ''Invalid Credentials''
              | Some u \<Rightarrow>
                  (case body_password rq of
                     Some (JStr pw) \<Rightarrow>
                       if \<not> bcrypt_compare L pw (password u)
                       then bad_request ''Invalid Credentials''
                       else
                         (case jwtSecret cfg of
                            None \<Rightarrow> server_error
                          | Some secret \<Rightarrow>
                              (case jwtExpiration cfg of
                                 None \<Rightarrow> server_error
                               | Some ex \<Rightarrow>
                                   (case jwt_sign L \<lparr>userId = toHexString L (user_id u)\<rparr>
                                           secret ex of
                                      Signed t \<Rightarrow> Response 200 (TokenBody t)
                                    | SignErrorSync \<Rightarrow> server_error
                                    | SignErrorAsync \<Rightarrow> NoResponse)))
                   | _ \<Rightarrow> server_error))))"

section \<open>routes/api/profile.ts\<close>

text \<open>\<open>GET api/profile/me\<close>.\<close>

definition get_me :: "libs \<Rightarrow> store \<Rightarrow> string \<Rightarrow> response" where
  "get_me L s uid =
     (case castObjectId L uid of
        None \<Rightarrow> server_error
      | Some i \<Rightarrow>
          (case find_profile_by_user s i of
             None \<Rightarrow> bad_request ''There is no profile for this user''
           | Some p \<Rightarrow> Response 200 (PopulatedBody (populate s p))))"

text \<open>
  The three checks of \<open>POST api/profile\<close>, each \<open>not().isEmpty()\<close>: an absent field is
  validated as the empty string.
\<close>

definition required_field :: "string \<Rightarrow> string \<Rightarrow> string option \<Rightarrow> error_item list" where
  "required_field param m v =
     (case v of
        None \<Rightarrow> [FieldError param None m]
      | Some x \<Rightarrow> if x = [] then [FieldError param (Some (JStr x)) m] else [])"

definition profile_errors :: "profile_body \<Rightarrow> error_item list" where
  "profile_errors b =
     required_field ''firstName'' ''First Name is required'' (body_firstName b)
     @ required_field ''lastName'' ''Last Name is required'' (body_lastName b)
     @ required_field ''username'' ''Username is required'' (body_username b)"

text \<open>
  \<open>POST api/profile\<close>. \<open>new_id\<close> and \<open>now\<close> are the \<open>_id\<close> and the \<open>Date.now\<close> default
  that \<open>new Profile(profileFields)\<close> would give a created document.
\<close>

definition upsert ::
  "libs \<Rightarrow> store \<Rightarrow> string \<Rightarrow> profile_body \<Rightarrow> objectId \<Rightarrow> nat \<Rightarrow> response \<times> store" where
  "upsert L s uid b new_id now =
     (if profile_errors b \<noteq> [] then (Response 400 (ErrorsBody (profile_errors b)), s)
      else
        (case (body_firstName b, body_lastName b, body_username b) of
           (Some f, Some l, Some n) \<Rightarrow>
             (case castObjectId L uid of
                None \<Rightarrow> (server_error, s)
              | Some i \<Rightarrow>
                  (case find_user_by_id s i of
                     None \<Rightarrow> (bad_request ''User not registered'', s)
                   | Some u \<Rightarrow>
                       (case find_profile_by_user s i of
                          Some p \<Rightarrow>
                            (case findOneAndUpdate (profiles s) i f l n of
                               Inl err \<Rightarrow> (server_error, s)
                             | Inr (p', ps') \<Rightarrow>
                                 (Response 200 (ProfileBody p'), s\<lparr>profiles := ps'\<rparr>))
                        | None \<Rightarrow>
                            (let p = \<lparr>profile_id = new_id, user = i, firstName = f,
                                      lastName = l, username = n, date = now\<rparr>
                             in case save (profiles s) p of
                                  Inl err \<Rightarrow> (server_error, s)
                                | Inr ps' \<Rightarrow>
                                    (Response 200 (ProfileBody (Some p)),
                                     s\<lparr>profiles := ps'\<rparr>)))))
         | _ \<Rightarrow> (Response 400 (ErrorsBody (profile_errors b)), s)))"

text \<open>\<open>GET api/profile\<close>.\<close>

definition get_profiles :: "store \<Rightarrow> response" where
  "get_profiles s = Response 200 (ProfilesBody (map (populate s) (profiles s)))"

text \<open>
  \<open>GET api/profile/user/:userId\<close>: the \<open>catch\<close> answers a CastError of kind
  \<open>"ObjectId"\<close> like a missing Profile.
\<close>

definition get_profile_by_user :: "libs \<Rightarrow> store \<Rightarrow> string \<Rightarrow> response" where
  "get_profile_by_user L s uid =
     (case castObjectId L uid of
        None \<Rightarrow> Response 400 (MsgBody ''Profile not found'')
      | Some i \<Rightarrow>
          (case find_profile_by_user s i of
             None \<Rightarrow> Response 400 (MsgBody ''Profile not found'')
           | Some p \<Rightarrow> Response 200 (PopulatedBody (populate s p))))"

text \<open>
  \<open>DELETE api/profile\<close>: \<open>Profile.findOneAndRemove({ user })\<close>, then
  \<open>User.findOneAndRemove({ _id })\<close>; neither answer is looked at.
\<close>

definition delete_profile :: "libs \<Rightarrow> store \<Rightarrow> string \<Rightarrow> response \<times> store" where
  "delete_profile L s uid =
     (case castObjectId L uid of
        None \<Rightarrow> (server_error, s)
      | Some i \<Rightarrow>
          (Response 200 (MsgBody ''User removed''),
           s\<lparr>profiles := remove_first (\<lambda>p. user p = i) (profiles s),
             users := remove_first (\<lambda>u. user_id u = i) (users s)\<rparr>))"

section \<open>Notions used in the statements\<close>

text \<open>
  What the login flow needs of jsonwebtoken for the configured secret and expiry:
  signing a payload succeeds, and verifying the token with the same secret gives the
  payload back. (The expiry of a token lies inside \<open>jwt.verify\<close>: the contract speaks
  of a token that has not expired.)
\<close>

definition jwt_roundtrip :: "libs \<Rightarrow> string \<Rightarrow> expiresIn \<Rightarrow> bool" where
  "jwt_roundtrip L secret ex =
     (\<forall>p. case jwt_sign L p secret ex of
        Signed t \<Rightarrow> jwt_verify L t secret = Some p
      | SignErrorSync \<Rightarrow> False
      | SignErrorAsync \<Rightarrow> False)"

text \<open>
  Two stores that differ at most in the \<open>password\<close> fields of their users: what
  \<open>select("-password")\<close> keeps of every User is the same, and so are the profiles.
\<close>

definition same_public :: "store \<Rightarrow> store \<Rightarrow> bool" where
  "same_public s s' =
     (map select_no_password (users s) = map select_no_password (users s')
      \<and> profiles s = profiles s')"

section \<open>Example inputs\<close>

text \<open>
  Stand-ins for the libraries, small enough to compute with: an email address is a
  string with an \<open>@\<close>, a hash is the password behind a \<open>$\<close>, a token is the secret, a
  dot and the user id, three ObjectIds are known by their hexadecimal strings, and a
  query value on \<open>email\<close> that is not a string is a CastError.
\<close>

definition example_libs :: libs where
  "example_libs =
     \<lparr>isEmail = (\<lambda>v. case v of JStr e \<Rightarrow> CHR ''@'' \<in> set e | _ \<Rightarrow> False),
      bcrypt_compare = (\<lambda>pw h. h = CHR ''$'' # pw),
      jwt_sign = (\<lambda>p k ex. Signed (k @ ''.'' @ userId p)),
      jwt_verify = (\<lambda>t k.
        if take (Suc (length k)) t = k @ ''.'' then Some \<lparr>userId = drop (Suc (length k)) t\<rparr>
        else None),
      castObjectId = (\<lambda>x.
        if x = ''5cd1f0a0b1c2d3e4f5a6b701'' then Some 101
        else if x = ''5cd1f0a0b1c2d3e4f5a6b702'' then Some 102
        else if x = ''5cd1f0a0b1c2d3e4f5a6b703'' then Some 103
        else None),
      toHexString = (\<lambda>i.
        if i = 101 then ''5cd1f0a0b1c2d3e4f5a6b701''
        else if i = 102 then ''5cd1f0a0b1c2d3e4f5a6b702''
        else ''5cd1f0a0b1c2d3e4f5a6b703''),
      castQuery = (\<lambda>v. None)\<rparr>"

definition example_config :: config where
  "example_config = \<lparr>jwtSecret = Some ''jwtSecretToken'', jwtExpiration = Some (Seconds 360000)\<rparr>"

definition alice :: user where
  "alice = \<lparr>user_id = 101, email = ''a@x.com'', password = ''$secret'', avatar = ''//gravatar/a''\<rparr>"

definition bob :: user where
  "bob = \<lparr>user_id = 102, email = ''b@x.com'', password = ''$hunter2'', avatar = ''//gravatar/b''\<rparr>"

definition alice_profile :: profile where
  "alice_profile =
     \<lparr>profile_id = 11, user = 101, firstName = ''Alice'', lastName = ''Lee'',
      username = ''alee'', date = 1557000000\<rparr>"

definition example_store :: store where
  "example_store = \<lparr>users = [alice, bob], profiles = [alice_profile]\<rparr>"

text \<open>The same store once Bob's account is gone.\<close>

definition alice_only_store :: store where
  "alice_only_store = \<lparr>users = [alice], profiles = [alice_profile]\<rparr>"

definition bob_profile :: profile where
  "bob_profile =
     \<lparr>profile_id = 12, user = 102, firstName = ''Bob'', lastName = ''Ray'',
      username = ''bray'', date = 1557000500\<rparr>"

text \<open>Both users with a Profile.\<close>

definition full_store :: store where
  "full_store = \<lparr>users = [alice, bob], profiles = [alice_profile, bob_profile]\<rparr>"

text \<open>The example store with another password hash for Alice.\<close>

definition rehashed_store :: store where
  "rehashed_store =
     \<lparr>users = [alice\<lparr>password := ''$other''\<rparr>, bob], profiles = [alice_profile]\<rparr>"

section \<open>Login\<close>

lemma find_distinct_key:
  "distinct (map k xs) \<Longrightarrow> x \<in> set xs \<Longrightarrow> List.find (\<lambda>y. k y = k x) xs = Some x"
  by (induction xs) (auto simp: image_iff)

lemma jwt_roundtripD:
  assumes "jwt_roundtrip L secret ex"
  shows "\<exists>t. jwt_sign L p secret ex = Signed t \<and> jwt_verify L t secret = Some p"
proof -
  from assms have "case jwt_sign L p secret ex of
        Signed t \<Rightarrow> jwt_verify L t secret = Some p
      | SignErrorSync \<Rightarrow> False
      | SignErrorAsync \<Rightarrow> False"
    unfolding jwt_roundtrip_def by blast
  then show ?thesis by (cases "jwt_sign L p secret ex") simp_all
qed

lemma login_valid:
  assumes "body_email rq = Some v" and "isEmail L v"
    and "list_all (isEmail L) (other_email rq)"
    and "body_password rq = Some w"
  shows "login_errors L rq = []"
  using assms by (simp add: login_errors_def email_values_def filter_empty_conv list_all_iff)

lemma email_query_string: "email_query L (Some (JStr e)) = Some (\<lambda>x. x = e)"
  by (simp add: email_query_def)

lemma find_user_matching_eq: "find_user_matching s (\<lambda>x. x = e) = find_user_by_email s e"
  by (simp add: find_user_matching_def find_user_by_email_def)

text \<open>The branches of the handler for a request whose \<open>req.body.email\<close> is a string.\<close>

lemma login_unknown_email:
  assumes "login_errors L rq = []" and "body_email rq = Some (JStr e)"
    and "find_user_by_email s e = None"
  shows "login L cfg s rq = Response 400 (ErrorsBody [MsgOnly ''Invalid Credentials''])"
  using assms
  by (simp add: login_def email_query_string find_user_matching_eq bad_request_def)

lemma login_wrong_password:
  assumes "login_errors L rq = []" and "body_email rq = Some (JStr e)"
    and "find_user_by_email s e = Some u"
    and "body_password rq = Some (JStr pw)"
    and "\<not> bcrypt_compare L pw (password u)"
  shows "login L cfg s rq = Response 400 (ErrorsBody [MsgOnly ''Invalid Credentials''])"
  using assms
  by (simp add: login_def email_query_string find_user_matching_eq bad_request_def)

lemma login_password_not_string:
  assumes "login_errors L rq = []" and "body_email rq = Some (JStr e)"
    and "find_user_by_email s e = Some u"
    and "\<forall>pw. body_password rq \<noteq> Some (JStr pw)"
  shows "login L cfg s rq = Response 500 (TextBody ''Server Error'')"
proof (cases "body_password rq")
  case None
  with assms(1-3) show ?thesis
    by (simp add: login_def email_query_string find_user_matching_eq server_error_def)
next
  case (Some w)
  with assms(4) have "\<forall>pw. w \<noteq> JStr pw" by simp
  with Some assms(1-3) show ?thesis
    by (cases w)
       (simp_all add: login_def email_query_string find_user_matching_eq server_error_def)
qed

lemma login_success:
  assumes "login_errors L rq = []" and "body_email rq = Some (JStr e)"
    and "find_user_by_email s e = Some u"
    and "body_password rq = Some (JStr pw)"
    and "bcrypt_compare L pw (password u)"
    and "jwtSecret cfg = Some secret"
    and "jwtExpiration cfg = Some ex"
    and "jwt_sign L \<lparr>userId = toHexString L (user_id u)\<rparr> secret ex = Signed t"
  shows "login L cfg s rq = Response 200 (TokenBody t)"
  using assms
  by (simp add: login_def email_query_string find_user_matching_eq)

text \<open>
  C1: for a stored User whose email address is the only one of its kind in the store,
  a login request that passes the validation, with that address as \<open>req.body.email\<close>
  and, as \<open>req.body.password\<close>, a password that \<open>bcrypt.compare\<close> accepts against the
  stored hash, answers 200 with a token; verifying the token with the configured
  secret gives a payload whose \<open>userId\<close> is the string form of that user's id. Of
  jsonwebtoken the theorem asks the round trip for the configured secret and expiry
  only.
\<close>

theorem login_token_identifies_user:
  assumes "u \<in> set (users s)"
    and "distinct (map email (users s))"
    and "body_email rq = Some (JStr (email u))"
    and "body_password rq = Some (JStr pw)"
    and "isEmail L (JStr (email u))"
    and "list_all (isEmail L) (other_email rq)"
    and "bcrypt_compare L pw (password u)"
    and "jwtSecret cfg = Some secret"
    and "jwtExpiration cfg = Some ex"
    and "jwt_roundtrip L secret ex"
  shows "\<exists>t. login L cfg s rq = Response 200 (TokenBody t)
           \<and> jwt_verify L t secret = Some \<lparr>userId = toHexString L (user_id u)\<rparr>"
proof -
  have valid: "login_errors L rq = []"
    using assms(3,5,6,4) by (rule login_valid)
  have found: "find_user_by_email s (email u) = Some u"
    unfolding find_user_by_email_def using assms(1,2) by (simp add: find_distinct_key)
  from jwt_roundtripD [OF assms(10)] obtain t where
    t: "jwt_sign L \<lparr>userId = toHexString L (user_id u)\<rparr> secret ex = Signed t"
    and v: "jwt_verify L t secret = Some \<lparr>userId = toHexString L (user_id u)\<rparr>"
    by blast
  have "login L cfg s rq = Response 200 (TokenBody t)"
    using valid assms(3) found assms(4,7,8,9) t by (rule login_success)
  with v show ?thesis by blast
qed

lemma example_libs_simps:
  "isEmail example_libs (JStr e) = (CHR ''@'' \<in> set e)"
  "bcrypt_compare example_libs pw h = (h = CHR ''$'' # pw)"
  "jwt_sign example_libs p k ex = Signed (k @ ''.'' @ userId p)"
  "jwt_verify example_libs t k =
     (if take (Suc (length k)) t = k @ ''.'' then Some \<lparr>userId = drop (Suc (length k)) t\<rparr>
      else None)"
  "castObjectId example_libs x =
     (if x = ''5cd1f0a0b1c2d3e4f5a6b701'' then Some 101
      else if x = ''5cd1f0a0b1c2d3e4f5a6b702'' then Some 102
      else if x = ''5cd1f0a0b1c2d3e4f5a6b703'' then Some 103
      else None)"
  "toHexString example_libs i =
     (if i = 101 then ''5cd1f0a0b1c2d3e4f5a6b701''
      else if i = 102 then ''5cd1f0a0b1c2d3e4f5a6b702''
      else ''5cd1f0a0b1c2d3e4f5a6b703'')"
  by (simp_all add: example_libs_def)

lemma example_libs_roundtrip: "jwt_roundtrip example_libs ''jwtSecretToken'' (Seconds 360000)"
  by (simp add: jwt_roundtrip_def example_libs_simps(3,4))

lemma example_store_finds:
  "find_user_by_email example_store ''nobody@x.com'' = None"
  "find_user_by_email example_store ''a@x.com'' = Some alice"
  "find_user_by_email example_store ''b@x.com'' = Some bob"
  "find_user_by_email rehashed_store ''b@x.com'' = Some bob"
  by (simp_all add: find_user_by_email_def example_store_def rehashed_store_def alice_def
      bob_def)

theorem login_token_identifies_user_witness:
  "\<exists>t. login example_libs example_config example_store
          \<lparr>body_email = Some (JStr ''b@x.com''), body_password = Some (JStr ''hunter2''),
           other_email = [], other_password = []\<rparr>
        = Response 200 (TokenBody t)
      \<and> jwt_verify example_libs t ''jwtSecretToken''
        = Some \<lparr>userId = ''5cd1f0a0b1c2d3e4f5a6b702''\<rparr>"
proof -
  have "\<exists>t. login example_libs example_config example_store
          \<lparr>body_email = Some (JStr ''b@x.com''), body_password = Some (JStr ''hunter2''),
           other_email = [], other_password = []\<rparr>
        = Response 200 (TokenBody t)
      \<and> jwt_verify example_libs t ''jwtSecretToken''
        = Some \<lparr>userId = toHexString example_libs (user_id bob)\<rparr>"
    by (rule login_token_identifies_user [where u = bob and pw = "''hunter2''"
          and ex = "Seconds 360000"])
       (simp_all add: example_libs_roundtrip example_store_def example_config_def alice_def
          bob_def example_libs_simps(1,2))
  then show ?thesis by (simp add: bob_def example_libs_simps(6))
qed

text \<open>
  The two failure branches of the handler send the same answer when the password is a
  string: an unknown address, and a known address with a password that \<open>bcrypt.compare\<close>
  rejects, both get 400 \<open>Invalid Credentials\<close>.
\<close>

lemma login_failures_same_for_string_passwords:
  assumes "login_errors L r1 = []" and "body_email r1 = Some (JStr e1)"
    and "find_user_by_email s e1 = None"
    and "login_errors L r2 = []" and "body_email r2 = Some (JStr e2)"
    and "find_user_by_email s e2 = Some u"
    and "body_password r2 = Some (JStr pw2)"
    and "\<not> bcrypt_compare L pw2 (password u)"
  shows "login L cfg s r1 = Response 400 (ErrorsBody [MsgOnly ''Invalid Credentials''])
         \<and> login L cfg s r2 = login L cfg s r1"
  using login_unknown_email [OF assms(1-3)] login_wrong_password [OF assms(4-8)]
  by simp

text \<open>
  C2: the claim is that, for every login request, an unknown email address and a known
  address whose password does not verify get the same answer, 400
  \<open>Invalid Credentials\<close>. The handler sends that answer from both of its failure
  branches, but a \<open>password\<close> that is not a string (here the number 123) passes
  \<open>exists()\<close> and makes \<open>bcrypt.compare\<close> throw, which happens only once a User was
  found: the registered address gets 500 \<open>Server Error\<close>, the unknown address 400
  \<open>Invalid Credentials\<close>, and the caller can tell the two apart.
\<close>

theorem login_non_string_password_reveals_user:
  "login example_libs example_config example_store
     \<lparr>body_email = Some (JStr ''a@x.com''), body_password = Some (JNum 123),
      other_email = [], other_password = []\<rparr>
     = Response 500 (TextBody ''Server Error'')
   \<and> login example_libs example_config example_store
       \<lparr>body_email = Some (JStr ''nobody@x.com''), body_password = Some (JNum 123),
        other_email = [], other_password = []\<rparr>
     = Response 400 (ErrorsBody [MsgOnly ''Invalid Credentials''])"
proof -
  let ?known = "\<lparr>body_email = Some (JStr ''a@x.com''), body_password = Some (JNum 123),
      other_email = [], other_password = []\<rparr>"
  let ?unknown = "\<lparr>body_email = Some (JStr ''nobody@x.com''),
      body_password = Some (JNum 123), other_email = [], other_password = []\<rparr>"
  have v1: "login_errors example_libs ?known = []"
    by (rule login_valid [where v = "JStr ''a@x.com''" and w = "JNum 123"])
       (simp_all add: example_libs_simps(1))
  have v2: "login_errors example_libs ?unknown = []"
    by (rule login_valid [where v = "JStr ''nobody@x.com''" and w = "JNum 123"])
       (simp_all add: example_libs_simps(1))
  have "login example_libs example_config example_store ?known
          = Response 500 (TextBody ''Server Error'')"
    by (rule login_password_not_string [OF v1, where e = "''a@x.com''" and u = alice])
       (simp_all add: example_store_finds)
  moreover have "login example_libs example_config example_store ?unknown
          = Response 400 (ErrorsBody [MsgOnly ''Invalid Credentials''])"
    by (rule login_unknown_email [OF v2, where e = "''nobody@x.com''"])
       (simp_all add: example_store_finds)
  ultimately show ?thesis by simp
qed

section \<open>Identity fetch\<close>

text \<open>
  C3: the claim is that \<open>GET api/auth\<close> fails with NotFound when the id of the token
  resolves to no stored User. The handler hands the result of \<open>findById\<close> to
  \<open>res.json\<close> without looking at it: for a well-formed id of a User that is gone, the
  answer is status 200 with the body \<open>null\<close>.
\<close>

theorem get_auth_deleted_user_answers_200:
  "get_auth example_libs alice_only_store ''5cd1f0a0b1c2d3e4f5a6b702''
     = Response 200 (UserBody None)"
  by (simp add: get_auth_def example_libs_simps(5) find_user_by_id_def alice_only_store_def
      alice_def)

lemma get_auth_unknown_user:
  "castObjectId L uid = Some i \<Longrightarrow> find_user_by_id s i = None
     \<Longrightarrow> get_auth L s uid = Response 200 (UserBody None)"
  by (simp add: get_auth_def)

section \<open>Profile reads\<close>

text \<open>
  C7: on \<open>GET api/profile/user/:userId\<close>, an identifier that is no well-formed
  ObjectId gets status 400 with \<open>{msg: "Profile not found"}\<close>, the very answer that a
  well-formed identifier without a Profile gets; it is not a 500.
\<close>

theorem malformed_id_is_profile_not_found:
  assumes "castObjectId L bad = None"
    and "castObjectId L good = Some i"
    and "find_profile_by_user s i = None"
  shows "get_profile_by_user L s bad = Response 400 (MsgBody ''Profile not found'')
         \<and> get_profile_by_user L s good = get_profile_by_user L s bad"
  using assms by (simp add: get_profile_by_user_def)

theorem malformed_id_is_profile_not_found_witness:
  "get_profile_by_user example_libs example_store ''not-an-id''
     = Response 400 (MsgBody ''Profile not found'')
   \<and> get_profile_by_user example_libs example_store ''5cd1f0a0b1c2d3e4f5a6b702''
     = get_profile_by_user example_libs example_store ''not-an-id''"
  by (rule malformed_id_is_profile_not_found [where i = 102])
     (simp_all add: example_libs_simps(5) find_profile_by_user_def example_store_def
        alice_profile_def)

section \<open>First-match updates of a collection\<close>

lemma find_split:
  "List.find P xs = Some x
     \<Longrightarrow> \<exists>ys zs. xs = ys @ x # zs \<and> P x \<and> List.find P ys = None"
proof (induction xs)
  case Nil
  then show ?case by simp
next
  case (Cons a xs)
  show ?case
  proof (cases "P a")
    case True
    with Cons.prems have "a = x" by simp
    with True have "a # xs = [] @ x # xs \<and> P x \<and> List.find P [] = None" by simp
    then show ?thesis by blast
  next
    case False
    with Cons.prems have "List.find P xs = Some x" by simp
    from Cons.IH [OF this] obtain ys zs where
      "xs = ys @ x # zs" "P x" "List.find P ys = None" by blast
    with False have "a # xs = (a # ys) @ x # zs \<and> P x \<and> List.find P (a # ys) = None"
      by simp
    then show ?thesis by blast
  qed
qed

lemma replace_first_split:
  "List.find P ys = None \<Longrightarrow> P x \<Longrightarrow> replace_first P y (ys @ x # zs) = ys @ y # zs"
  by (induction ys) (auto split: if_splits)

lemma remove_first_split:
  "List.find P ys = None \<Longrightarrow> P x \<Longrightarrow> remove_first P (ys @ x # zs) = ys @ zs"
  by (induction ys) (auto split: if_splits)

lemma find_append_hit:
  "List.find P ys = None \<Longrightarrow> P x \<Longrightarrow> List.find P (ys @ x # zs) = Some x"
  by (induction ys) (auto split: if_splits)

lemma remove_first_none: "List.find P xs = None \<Longrightarrow> remove_first P xs = xs"
  by (induction xs) (auto split: if_splits)

lemma remove_first_keeps: "x \<in> set xs \<Longrightarrow> \<not> P x \<Longrightarrow> x \<in> set (remove_first P xs)"
  by (induction xs) auto

lemma find_none_distinct_key:
  "distinct (map k xs) \<Longrightarrow> List.find (\<lambda>x. k x = i) (remove_first (\<lambda>x. k x = i) xs) = None"
  by (induction xs) (auto simp: find_None_iff image_iff)

section \<open>Create or update\<close>

lemma profile_errors_ok:
  "f \<noteq> [] \<Longrightarrow> l \<noteq> [] \<Longrightarrow> n \<noteq> []
     \<Longrightarrow> profile_errors \<lparr>body_firstName = Some f, body_lastName = Some l, body_username = Some n\<rparr> = []"
  by (simp add: profile_errors_def required_field_def)

lemma required_field_empty:
  "required_field param m v = [] \<Longrightarrow> \<exists>x. v = Some x \<and> x \<noteq> []"
  by (cases v) (auto simp: required_field_def split: if_splits)

lemma profile_errors_empty:
  assumes "profile_errors b = []"
  shows "\<exists>f l n. body_firstName b = Some f \<and> body_lastName b = Some l \<and> body_username b = Some n
           \<and> f \<noteq> [] \<and> l \<noteq> [] \<and> n \<noteq> []"
proof -
  from assms have
    "required_field ''firstName'' ''First Name is required'' (body_firstName b) = []"
    "required_field ''lastName'' ''Last Name is required'' (body_lastName b) = []"
    "required_field ''username'' ''Username is required'' (body_username b) = []"
    by (simp_all add: profile_errors_def)
  from this [THEN required_field_empty] show ?thesis by blast
qed

text \<open>The update branch and the create branch of the handler, each on its own.\<close>

lemma upsert_update:
  assumes "profile_errors b = []"
    and "body_firstName b = Some f" "body_lastName b = Some l" "body_username b = Some n"
    and "castObjectId L uid = Some i"
    and "find_user_by_id s i = Some u"
    and "find_profile_by_user s i = Some p"
  shows "upsert L s uid b new_id now =
      (if n \<in> set (map username (remove_first (\<lambda>q. user q = i) (profiles s)))
       then (server_error, s)
       else (Response 200
               (ProfileBody (Some (p\<lparr>user := i, firstName := f, lastName := l, username := n\<rparr>))),
             s\<lparr>profiles := replace_first (\<lambda>q. user q = i)
                  (p\<lparr>user := i, firstName := f, lastName := l, username := n\<rparr>) (profiles s)\<rparr>))"
proof -
  from assms(7) have "List.find (\<lambda>q. user q = i) (profiles s) = Some p"
    by (simp add: find_profile_by_user_def)
  then show ?thesis
    using assms(1-7) by (simp add: upsert_def findOneAndUpdate_def Let_def)
qed

lemma upsert_create:
  assumes "profile_errors b = []"
    and "body_firstName b = Some f" "body_lastName b = Some l" "body_username b = Some n"
    and "castObjectId L uid = Some i"
    and "find_user_by_id s i = Some u"
    and "find_profile_by_user s i = None"
  shows "upsert L s uid b new_id now =
      (if n \<in> set (map username (profiles s)) \<or> new_id \<in> set (map profile_id (profiles s))
       then (server_error, s)
       else (Response 200
               (ProfileBody (Some \<lparr>profile_id = new_id, user = i, firstName = f, lastName = l,
                                   username = n, date = now\<rparr>)),
             s\<lparr>profiles := profiles s @ [\<lparr>profile_id = new_id, user = i, firstName = f,
                                         lastName = l, username = n, date = now\<rparr>]\<rparr>))"
proof -
  from assms(1) profile_errors_empty [OF assms(1)] assms(2-4)
  have "f \<noteq> []" "l \<noteq> []" "n \<noteq> []" by auto
  then show ?thesis
    using assms(1-7) by (simp add: upsert_def save_def Let_def)
qed

text \<open>Whatever is not a 200 leaves the store as it was; a 200 comes from one of the two branches.\<close>

lemma upsert_success:
  assumes "upsert L s uid b new_id now = (Response 200 bd, s1)"
  shows "\<exists>f l n i u. profile_errors b = []
           \<and> body_firstName b = Some f \<and> body_lastName b = Some l \<and> body_username b = Some n
           \<and> castObjectId L uid = Some i \<and> find_user_by_id s i = Some u"
proof -
  have e: "profile_errors b = []"
    using assms by (cases "profile_errors b = []") (simp_all add: upsert_def)
  from profile_errors_empty [OF e] obtain f l n where
    b: "body_firstName b = Some f" "body_lastName b = Some l" "body_username b = Some n"
    by blast
  from assms e b obtain i where i: "castObjectId L uid = Some i"
    by (cases "castObjectId L uid") (simp_all add: upsert_def server_error_def)
  from assms e b i obtain u where "find_user_by_id s i = Some u"
    by (cases "find_user_by_id s i") (simp_all add: upsert_def bad_request_def)
  with e b i show ?thesis by blast
qed


lemma upsert_failure_keeps_store:
  assumes "upsert L s uid b new_id now = (r, s1)" and "\<forall>bd. r \<noteq> Response 200 bd"
  shows "s1 = s"
  using assms
  by (auto simp: upsert_def Let_def split: if_splits option.splits sum.splits prod.splits)

text \<open>
  C5: when the authenticated user has a Profile and the upsert answers 200, the store
  differs from the one before in that one Profile only, and there in \<open>firstName\<close>,
  \<open>lastName\<close> and \<open>username\<close> only: its \<open>_id\<close>, its \<open>user\<close> reference and its \<open>date\<close> are
  the ones it had, every other Profile and every User is untouched, and the answer is
  the updated Profile.
\<close>

theorem upsert_update_frame:
  assumes "castObjectId L uid = Some i"
    and "find_profile_by_user s i = Some p"
    and "upsert L s uid b new_id now = (Response 200 bd, s1)"
  shows "\<exists>f l n before after p'.
      body_firstName b = Some f \<and> body_lastName b = Some l \<and> body_username b = Some n
      \<and> p' = p\<lparr>firstName := f, lastName := l, username := n\<rparr>
      \<and> bd = ProfileBody (Some p')
      \<and> profiles s = before @ p # after \<and> profiles s1 = before @ p' # after
      \<and> users s1 = users s
      \<and> profile_id p' = profile_id p \<and> user p' = user p \<and> date p' = date p"
proof -
  from upsert_success [OF assms(3)] assms(1) obtain f l n u where
    e: "profile_errors b = []"
    and b: "body_firstName b = Some f" "body_lastName b = Some l" "body_username b = Some n"
    and u: "find_user_by_id s i = Some u"
    by auto
  let ?P = "\<lambda>q. user q = i"
  from assms(2) have found: "List.find ?P (profiles s) = Some p"
    by (simp add: find_profile_by_user_def)
  from find_split [OF found] obtain before after where
    split: "profiles s = before @ p # after" and pi: "user p = i"
    and nb: "List.find ?P before = None"
    by blast
  define p' where "p' = p\<lparr>firstName := f, lastName := l, username := n\<rparr>"
  from pi have same: "p\<lparr>user := i, firstName := f, lastName := l, username := n\<rparr> = p'"
    by (simp add: p'_def)
  from upsert_update [OF e b assms(1) u assms(2), of new_id now] assms(3) same
  have res: "bd = ProfileBody (Some p')"
    "s1 = s\<lparr>profiles := replace_first ?P p' (profiles s)\<rparr>"
    by (simp_all add: server_error_def split: if_splits)
  from res(2) split replace_first_split [OF nb pi]
  have "profiles s1 = before @ p' # after" "users s1 = users s"
    by simp_all
  moreover have "profile_id p' = profile_id p" "user p' = user p" "date p' = date p"
    by (simp_all add: p'_def)
  ultimately show ?thesis
    using b res(1) split p'_def by blast
qed

text \<open>
  An upsert that answered 200, sent again with the same fields for the same user,
  answers 200 with the same body and leaves the store as the first call left it,
  whatever \<open>_id\<close> and time the second call would have had for a new document.
\<close>

lemma upsert_repeat:
  assumes "upsert L s uid b new_id now = (Response 200 bd, s1)"
  shows "upsert L s1 uid b new_id' now' = (Response 200 bd, s1)
         \<and> (\<exists>p. bd = ProfileBody (Some p))"
proof -
  from upsert_success [OF assms] obtain f l n i u where
    e: "profile_errors b = []"
    and b: "body_firstName b = Some f" "body_lastName b = Some l" "body_username b = Some n"
    and i: "castObjectId L uid = Some i"
    and u: "find_user_by_id s i = Some u"
    by blast
  let ?P = "\<lambda>q. user q = i"
  show ?thesis
  proof (cases "find_profile_by_user s i")
    case (Some p)
    define p' where "p' = p\<lparr>user := i, firstName := f, lastName := l, username := n\<rparr>"
    from upsert_update [OF e b i u Some, of new_id now] assms
    have fresh: "n \<notin> set (map username (remove_first ?P (profiles s)))"
      and bd: "bd = ProfileBody (Some p')"
      and s1: "s1 = s\<lparr>profiles := replace_first ?P p' (profiles s)\<rparr>"
      by (simp_all add: server_error_def p'_def split: if_splits)
    from Some have "List.find ?P (profiles s) = Some p"
      by (simp add: find_profile_by_user_def)
    from find_split [OF this] obtain ys zs where
      split: "profiles s = ys @ p # zs" and pi: "user p = i" and nb: "List.find ?P ys = None"
      by blast
    have p'i: "user p' = i" by (simp add: p'_def)
    from s1 split replace_first_split [OF nb pi, of p' zs]
    have ps1: "profiles s1 = ys @ p' # zs" by simp
    from s1 u have u1: "find_user_by_id s1 i = Some u"
      by (simp add: find_user_by_id_def)
    from ps1 find_append_hit [OF nb p'i, of zs]
    have f1: "find_profile_by_user s1 i = Some p'"
      by (simp add: find_profile_by_user_def)
    from ps1 split remove_first_split [OF nb pi, of zs] remove_first_split [OF nb p'i, of zs]
    have "remove_first ?P (profiles s1) = remove_first ?P (profiles s)" by simp
    with fresh have fresh1: "n \<notin> set (map username (remove_first ?P (profiles s1)))"
      by simp
    have again: "p'\<lparr>user := i, firstName := f, lastName := l, username := n\<rparr> = p'"
      by (simp add: p'_def)
    from ps1 replace_first_split [OF nb p'i, of p' zs]
    have "replace_first ?P p' (profiles s1) = profiles s1" by simp
    with upsert_update [OF e b i u1 f1, of new_id' now'] fresh1 again bd
    show ?thesis by simp
  next
    case None
    define p0 where "p0 = \<lparr>profile_id = new_id, user = i, firstName = f, lastName = l,
      username = n, date = now\<rparr>"
    from upsert_create [OF e b i u None, of new_id now] assms
    have fresh: "n \<notin> set (map username (profiles s))"
      and bd: "bd = ProfileBody (Some p0)"
      and s1: "s1 = s\<lparr>profiles := profiles s @ [p0]\<rparr>"
      by (simp_all add: server_error_def p0_def split: if_splits)
    from None have nb: "List.find ?P (profiles s) = None"
      by (simp add: find_profile_by_user_def)
    have p0i: "user p0 = i" by (simp add: p0_def)
    from s1 have ps1: "profiles s1 = profiles s @ p0 # []" by simp
    from s1 u have u1: "find_user_by_id s1 i = Some u"
      by (simp add: find_user_by_id_def)
    from ps1 find_append_hit [OF nb p0i, of "[]"]
    have f1: "find_profile_by_user s1 i = Some p0"
      by (simp add: find_profile_by_user_def)
    from ps1 remove_first_split [OF nb p0i, of "[]"]
    have "remove_first ?P (profiles s1) = profiles s" by simp
    with fresh have fresh1: "n \<notin> set (map username (remove_first ?P (profiles s1)))"
      by simp
    have again: "p0\<lparr>user := i, firstName := f, lastName := l, username := n\<rparr> = p0"
      by (simp add: p0_def)
    from ps1 replace_first_split [OF nb p0i, of p0 "[]"]
    have "replace_first ?P p0 (profiles s1) = profiles s1" by simp
    with upsert_update [OF e b i u1 f1, of new_id' now'] fresh1 again bd
    show ?thesis by simp
  qed
qed

text \<open>
  C6: for an authenticated user who is registered, and three non-empty fields whose
  username no Profile of another user holds, the upsert answers 200 with a Profile
  that carries the three fields and the user's id: a new document (the \<open>_id\<close> and date
  of \<open>new Profile\<close>, appended to the collection) when the user had none, the user's
  Profile with the three fields set otherwise. That Profile is then the user's Profile
  in the store. The same request again, whatever \<open>_id\<close> and time it would have for a
  new document, answers 200 with the same Profile, hence the same \<open>_id\<close>, and leaves
  the store as the first call left it.
\<close>

theorem upsert_idempotent:
  assumes "castObjectId L uid = Some i"
    and "find_user_by_id s i = Some u"
    and "f \<noteq> []" and "l \<noteq> []" and "n \<noteq> []"
    and "n \<notin> set (map username (remove_first (\<lambda>q. user q = i) (profiles s)))"
    and "find_profile_by_user s i = None \<longrightarrow> new_id \<notin> set (map profile_id (profiles s))"
  shows "\<exists>p s1.
      upsert L s uid
        \<lparr>body_firstName = Some f, body_lastName = Some l, body_username = Some n\<rparr>
        new_id now
      = (Response 200 (ProfileBody (Some p)), s1)
      \<and> p = (case find_profile_by_user s i of
               None \<Rightarrow> \<lparr>profile_id = new_id, user = i, firstName = f, lastName = l,
                         username = n, date = now\<rparr>
             | Some q \<Rightarrow> q\<lparr>firstName := f, lastName := l, username := n\<rparr>)
      \<and> profiles s1 = (case find_profile_by_user s i of
               None \<Rightarrow> profiles s @ [p]
             | Some q \<Rightarrow> replace_first (\<lambda>q. user q = i) p (profiles s))
      \<and> users s1 = users s
      \<and> find_profile_by_user s1 i = Some p
      \<and> upsert L s1 uid
          \<lparr>body_firstName = Some f, body_lastName = Some l, body_username = Some n\<rparr>
          new_id' now'
        = (Response 200 (ProfileBody (Some p)), s1)"
proof -
  let ?b = "\<lparr>body_firstName = Some f, body_lastName = Some l, body_username = Some n\<rparr>"
  let ?P = "\<lambda>q. user q = i"
  have e: "profile_errors ?b = []"
    using assms(3-5) by (rule profile_errors_ok)
  have b: "body_firstName ?b = Some f" "body_lastName ?b = Some l" "body_username ?b = Some n"
    by simp_all
  show ?thesis
  proof (cases "find_profile_by_user s i")
    case None
    define p where "p = \<lparr>profile_id = new_id, user = i, firstName = f, lastName = l,
      username = n, date = now\<rparr>"
    define s1 where "s1 = s\<lparr>profiles := profiles s @ [p]\<rparr>"
    from None have nb: "List.find ?P (profiles s) = None"
      by (simp add: find_profile_by_user_def)
    from assms(6) remove_first_none [OF nb]
    have "n \<notin> set (map username (profiles s))" by simp
    moreover from assms(7) None have "new_id \<notin> set (map profile_id (profiles s))"
      by simp
    ultimately have first: "upsert L s uid ?b new_id now
        = (Response 200 (ProfileBody (Some p)), s1)"
      using upsert_create [OF e b assms(1,2) None, of new_id now]
      by (simp add: p_def s1_def)
    have "user p = i" by (simp add: p_def)
    from find_append_hit [OF nb this, of "[]"]
    have "find_profile_by_user s1 i = Some p"
      by (simp add: find_profile_by_user_def s1_def)
    moreover have "profiles s1 = profiles s @ [p]" "users s1 = users s"
      by (simp_all add: s1_def)
    moreover note first upsert_repeat [OF first, of new_id' now']
    ultimately show ?thesis
      using None p_def by simp
  next
    case (Some q)
    define p where "p = q\<lparr>firstName := f, lastName := l, username := n\<rparr>"
    define s1 where "s1 = s\<lparr>profiles := replace_first ?P p (profiles s)\<rparr>"
    from Some have found: "List.find ?P (profiles s) = Some q"
      by (simp add: find_profile_by_user_def)
    from find_split [OF found] obtain ys zs where
      split: "profiles s = ys @ q # zs" and qi: "user q = i" and nb: "List.find ?P ys = None"
      by blast
    from qi have same: "q\<lparr>user := i, firstName := f, lastName := l, username := n\<rparr> = p"
      by (simp add: p_def)
    from assms(6) have first: "upsert L s uid ?b new_id now
        = (Response 200 (ProfileBody (Some p)), s1)"
      using upsert_update [OF e b assms(1,2) Some, of new_id now]
      by (simp add: same s1_def)
    from qi have pi: "user p = i" by (simp add: p_def)
    from split replace_first_split [OF nb qi, of p zs]
    have "profiles s1 = ys @ p # zs" by (simp add: s1_def)
    with find_append_hit [OF nb pi, of zs]
    have "find_profile_by_user s1 i = Some p"
      by (simp add: find_profile_by_user_def)
    moreover have "profiles s1 = replace_first ?P p (profiles s)" "users s1 = users s"
      by (simp_all add: s1_def)
    moreover note first upsert_repeat [OF first, of new_id' now']
    ultimately show ?thesis
      using Some p_def by simp
  qed
qed

text \<open>
  C4, as the code has it: when a Profile of another user holds the username, the
  unique index refuses the write, the handler's \<open>catch\<close> answers with the generic
  500 \<open>Server Error\<close>, and the store, the other user's Profile in it, is as it was.
\<close>

theorem username_collision_is_server_error:
  assumes "castObjectId L uid = Some i"
    and "find_user_by_id s i = Some u"
    and "q \<in> set (profiles s)" and "user q \<noteq> i" and "username q = n"
    and "f \<noteq> []" and "l \<noteq> []" and "n \<noteq> []"
  shows "upsert L s uid
           \<lparr>body_firstName = Some f, body_lastName = Some l, body_username = Some n\<rparr>
           new_id now
         = (Response 500 (TextBody ''Server Error''), s)"
proof -
  let ?b = "\<lparr>body_firstName = Some f, body_lastName = Some l, body_username = Some n\<rparr>"
  have e: "profile_errors ?b = []"
    using assms(6-8) by (rule profile_errors_ok)
  have b: "body_firstName ?b = Some f" "body_lastName ?b = Some l" "body_username ?b = Some n"
    by simp_all
  show ?thesis
  proof (cases "find_profile_by_user s i")
    case None
    from assms(3,5) have "n \<in> set (map username (profiles s))" by force
    with upsert_create [OF e b assms(1,2) None, of new_id now]
    show ?thesis by (simp add: server_error_def)
  next
    case (Some p)
    from assms(3,4) have "q \<in> set (remove_first (\<lambda>q. user q = i) (profiles s))"
      by (simp add: remove_first_keeps)
    with assms(5) have "n \<in> set (map username (remove_first (\<lambda>q. user q = i) (profiles s)))"
      by force
    with upsert_update [OF e b assms(1,2) Some, of new_id now]
    show ?thesis by (simp add: server_error_def)
  qed
qed


lemma example_upsert_simps:
  "profile_errors \<lparr>body_firstName = Some ''Alice'', body_lastName = Some ''Lee'',
      body_username = Some ''alice2''\<rparr> = []"
  "profile_errors \<lparr>body_firstName = Some ''Bob'', body_lastName = Some ''Ray'',
      body_username = Some ''bray''\<rparr> = []"
  "profile_errors \<lparr>body_firstName = Some ''Bob'', body_lastName = Some ''Ray'',
      body_username = Some ''alee''\<rparr> = []"
  "find_user_by_id example_store 101 = Some alice"
  "find_user_by_id example_store 102 = Some bob"
  "find_user_by_id full_store 102 = Some bob"
  "find_profile_by_user example_store 101 = Some alice_profile"
  "find_profile_by_user example_store 102 = None"
  "find_profile_by_user full_store 102 = Some bob_profile"
  by (simp_all add: profile_errors_def required_field_def find_user_by_id_def
      find_profile_by_user_def example_store_def full_store_def alice_def bob_def
      alice_profile_def bob_profile_def)

lemma example_update_alice:
  "upsert example_libs example_store ''5cd1f0a0b1c2d3e4f5a6b701''
     \<lparr>body_firstName = Some ''Alice'', body_lastName = Some ''Lee'',
      body_username = Some ''alice2''\<rparr> 13 1557000900
   = (Response 200 (ProfileBody (Some (alice_profile\<lparr>username := ''alice2''\<rparr>))),
      example_store\<lparr>profiles := [alice_profile\<lparr>username := ''alice2''\<rparr>]\<rparr>)"
proof -
  have "upsert example_libs example_store ''5cd1f0a0b1c2d3e4f5a6b701''
     \<lparr>body_firstName = Some ''Alice'', body_lastName = Some ''Lee'',
      body_username = Some ''alice2''\<rparr> 13 1557000900
     = (if ''alice2'' \<in> set (map username
              (remove_first (\<lambda>q. user q = 101) (profiles example_store)))
        then (server_error, example_store)
        else (Response 200
         (ProfileBody (Some (alice_profile\<lparr>user := 101, firstName := ''Alice'',
            lastName := ''Lee'', username := ''alice2''\<rparr>))),
        example_store\<lparr>profiles := replace_first (\<lambda>q. user q = 101)
          (alice_profile\<lparr>user := 101, firstName := ''Alice'', lastName := ''Lee'',
             username := ''alice2''\<rparr>) (profiles example_store)\<rparr>))"
    by (rule upsert_update [where u = alice])
       (simp_all add: example_upsert_simps example_libs_simps(5))
  then show ?thesis
    by (simp add: example_store_def alice_profile_def)
qed

theorem upsert_update_frame_witness:
  "\<exists>f l n before after p'.
      body_firstName \<lparr>body_firstName = Some ''Alice'', body_lastName = Some ''Lee'',
        body_username = Some ''alice2''\<rparr> = Some f
      \<and> body_lastName \<lparr>body_firstName = Some ''Alice'', body_lastName = Some ''Lee'',
        body_username = Some ''alice2''\<rparr> = Some l
      \<and> body_username \<lparr>body_firstName = Some ''Alice'', body_lastName = Some ''Lee'',
        body_username = Some ''alice2''\<rparr> = Some n
      \<and> p' = alice_profile\<lparr>firstName := f, lastName := l, username := n\<rparr>
      \<and> ProfileBody (Some (alice_profile\<lparr>username := ''alice2''\<rparr>)) = ProfileBody (Some p')
      \<and> profiles example_store = before @ alice_profile # after
      \<and> profiles (example_store\<lparr>profiles := [alice_profile\<lparr>username := ''alice2''\<rparr>]\<rparr>)
          = before @ p' # after
      \<and> users (example_store\<lparr>profiles := [alice_profile\<lparr>username := ''alice2''\<rparr>]\<rparr>)
          = users example_store
      \<and> profile_id p' = profile_id alice_profile \<and> user p' = user alice_profile
      \<and> date p' = date alice_profile"
  using example_libs_simps(5) [of "''5cd1f0a0b1c2d3e4f5a6b701''"] example_upsert_simps(7)
    example_update_alice
  by (intro upsert_update_frame [where L = example_libs and i = 101
        and uid = "''5cd1f0a0b1c2d3e4f5a6b701''" and new_id = 13 and now = 1557000900])
     simp_all

theorem upsert_idempotent_witness:
  "upsert example_libs example_store ''5cd1f0a0b1c2d3e4f5a6b702''
     \<lparr>body_firstName = Some ''Bob'', body_lastName = Some ''Ray'',
      body_username = Some ''bray''\<rparr> 12 1557000500
   = (Response 200 (ProfileBody (Some bob_profile)), full_store)
   \<and> find_profile_by_user full_store 102 = Some bob_profile
   \<and> upsert example_libs full_store ''5cd1f0a0b1c2d3e4f5a6b702''
       \<lparr>body_firstName = Some ''Bob'', body_lastName = Some ''Ray'',
        body_username = Some ''bray''\<rparr> 14 1557003000
     = (Response 200 (ProfileBody (Some bob_profile)), full_store)"
proof -
  let ?b = "\<lparr>body_firstName = Some ''Bob'', body_lastName = Some ''Ray'',
      body_username = Some ''bray''\<rparr>"
  have c: "castObjectId example_libs ''5cd1f0a0b1c2d3e4f5a6b702'' = Some 102"
    by (simp add: example_libs_simps(5))
  have free: "''bray'' \<notin> set (map username
      (remove_first (\<lambda>q. user q = 102) (profiles example_store)))"
    by (simp add: example_store_def alice_profile_def)
  have fresh: "find_profile_by_user example_store 102 = None
      \<longrightarrow> 12 \<notin> set (map profile_id (profiles example_store))"
    by (simp add: example_store_def alice_profile_def)
  from upsert_idempotent [OF c example_upsert_simps(5) _ _ _ free fresh,
      of "''Bob''" "''Ray''" 1557000500 14 1557003000]
  obtain p s1 where
    first: "upsert example_libs example_store ''5cd1f0a0b1c2d3e4f5a6b702'' ?b 12 1557000500
        = (Response 200 (ProfileBody (Some p)), s1)"
    and p: "p = (case find_profile_by_user example_store 102 of
               None \<Rightarrow> \<lparr>profile_id = 12, user = 102, firstName = ''Bob'', lastName = ''Ray'',
                         username = ''bray'', date = 1557000500\<rparr>
             | Some q \<Rightarrow> q\<lparr>firstName := ''Bob'', lastName := ''Ray'', username := ''bray''\<rparr>)"
    and ps: "profiles s1 = (case find_profile_by_user example_store 102 of
               None \<Rightarrow> profiles example_store @ [p]
             | Some q \<Rightarrow> replace_first (\<lambda>q. user q = 102) p (profiles example_store))"
    and us: "users s1 = users example_store"
    and found: "find_profile_by_user s1 102 = Some p"
    and again: "upsert example_libs s1 ''5cd1f0a0b1c2d3e4f5a6b702'' ?b 14 1557003000
        = (Response 200 (ProfileBody (Some p)), s1)"
    by auto
  from p have p': "p = bob_profile"
    by (simp add: example_upsert_simps(8) bob_profile_def)
  from ps p' have "profiles s1 = profiles example_store @ [bob_profile]"
    by (simp add: example_upsert_simps(8))
  with us have "s1 = full_store"
    by (cases s1) (simp add: example_store_def full_store_def)
  with first found again p' show ?thesis by simp
qed

text \<open>
  C4 as the claim has it fails: Bob asks for the username that Alice's Profile holds,
  and the answer is the generic 500 \<open>Server Error\<close>, not a conflict or validation
  error.
\<close>

theorem username_collision_not_conflict:
  "find_profile_by_user example_store 101 = Some alice_profile
   \<and> username alice_profile = ''alee''
   \<and> find_user_by_id example_store 102 = Some bob
   \<and> upsert example_libs example_store ''5cd1f0a0b1c2d3e4f5a6b702''
       \<lparr>body_firstName = Some ''Bob'', body_lastName = Some ''Ray'',
        body_username = Some ''alee''\<rparr> 12 1557000500
     = (Response 500 (TextBody ''Server Error''), example_store)"
proof -
  have "upsert example_libs example_store ''5cd1f0a0b1c2d3e4f5a6b702''
       \<lparr>body_firstName = Some ''Bob'', body_lastName = Some ''Ray'',
        body_username = Some ''alee''\<rparr> 12 1557000500
    = (if ''alee'' \<in> set (map username (profiles example_store))
          \<or> 12 \<in> set (map profile_id (profiles example_store))
       then (server_error, example_store)
       else (Response 200
               (ProfileBody (Some \<lparr>profile_id = 12, user = 102, firstName = ''Bob'',
                  lastName = ''Ray'', username = ''alee'', date = 1557000500\<rparr>)),
             example_store\<lparr>profiles := profiles example_store @
                [\<lparr>profile_id = 12, user = 102, firstName = ''Bob'', lastName = ''Ray'',
                  username = ''alee'', date = 1557000500\<rparr>]\<rparr>))"
    by (rule upsert_create [where u = bob])
       (simp_all add: example_upsert_simps example_libs_simps(5))
  then have "upsert example_libs example_store ''5cd1f0a0b1c2d3e4f5a6b702''
       \<lparr>body_firstName = Some ''Bob'', body_lastName = Some ''Ray'',
        body_username = Some ''alee''\<rparr> 12 1557000500
     = (Response 500 (TextBody ''Server Error''), example_store)"
    by (simp add: example_store_def alice_profile_def server_error_def)
  moreover have "username alice_profile = ''alee''"
    by (simp add: alice_profile_def)
  ultimately show ?thesis
    using example_upsert_simps(5,7) by simp
qed

theorem username_collision_is_server_error_witness:
  "upsert example_libs full_store ''5cd1f0a0b1c2d3e4f5a6b702''
     \<lparr>body_firstName = Some ''Bob'', body_lastName = Some ''Ray'',
      body_username = Some ''alee''\<rparr> 15 1557004000
   = (Response 500 (TextBody ''Server Error''), full_store)"
proof -
  have "alice_profile \<in> set (profiles full_store)" by (simp add: full_store_def)
  moreover have "user alice_profile \<noteq> 102" "username alice_profile = ''alee''"
    by (simp_all add: alice_profile_def)
  moreover have "castObjectId example_libs ''5cd1f0a0b1c2d3e4f5a6b702'' = Some 102"
    by (simp add: example_libs_simps(5))
  ultimately show ?thesis
    using example_upsert_simps(6)
    by (intro username_collision_is_server_error [where i = 102 and u = bob
          and q = alice_profile]) simp_all
qed

section \<open>Delete\<close>

lemma remove_first_twice:
  "distinct (map k xs)
     \<Longrightarrow> remove_first (\<lambda>x. k x = i) (remove_first (\<lambda>x. k x = i) xs)
         = remove_first (\<lambda>x. k x = i) xs"
  by (rule remove_first_none) (rule find_none_distinct_key)

lemma delete_profile_ok:
  "castObjectId L uid = Some i
     \<Longrightarrow> delete_profile L s uid
         = (Response 200 (MsgBody ''User removed''),
            s\<lparr>profiles := remove_first (\<lambda>p. user p = i) (profiles s),
              users := remove_first (\<lambda>u. user_id u = i) (users s)\<rparr>)"
  by (simp add: delete_profile_def)

text \<open>
  C8: for an authenticated user (an id that casts) in a store with at most one Profile
  per user and one User per id, the delete answers 200; in the store it leaves, no
  Profile references the user, so \<open>GET api/profile/me\<close> answers that there is no
  profile, and no User has the id.
\<close>

theorem delete_removes_profile_and_user:
  assumes "castObjectId L uid = Some i"
    and "distinct (map user (profiles s))"
    and "distinct (map user_id (users s))"
  shows "fst (delete_profile L s uid) = Response 200 (MsgBody ''User removed'')
       \<and> find_profile_by_user (snd (delete_profile L s uid)) i = None
       \<and> find_user_by_id (snd (delete_profile L s uid)) i = None
       \<and> get_me L (snd (delete_profile L s uid)) uid
           = Response 400 (ErrorsBody [MsgOnly ''There is no profile for this user''])"
proof -
  let ?s1 = "snd (delete_profile L s uid)"
  from delete_profile_ok [OF assms(1), of s]
  have r: "fst (delete_profile L s uid) = Response 200 (MsgBody ''User removed'')"
    and ps: "profiles ?s1 = remove_first (\<lambda>p. user p = i) (profiles s)"
    and us: "users ?s1 = remove_first (\<lambda>u. user_id u = i) (users s)"
    by simp_all
  from ps find_none_distinct_key [OF assms(2), of i]
  have np: "find_profile_by_user ?s1 i = None"
    by (simp add: find_profile_by_user_def)
  from us find_none_distinct_key [OF assms(3), of i]
  have nu: "find_user_by_id ?s1 i = None"
    by (simp add: find_user_by_id_def)
  from assms(1) np
  have "get_me L ?s1 uid = Response 400 (ErrorsBody [MsgOnly ''There is no profile for this user''])"
    by (simp add: get_me_def bad_request_def)
  with r np nu show ?thesis by simp
qed

theorem delete_removes_profile_and_user_witness:
  "fst (delete_profile example_libs example_store ''5cd1f0a0b1c2d3e4f5a6b701'')
     = Response 200 (MsgBody ''User removed'')
   \<and> find_profile_by_user
       (snd (delete_profile example_libs example_store ''5cd1f0a0b1c2d3e4f5a6b701'')) 101 = None
   \<and> find_user_by_id
       (snd (delete_profile example_libs example_store ''5cd1f0a0b1c2d3e4f5a6b701'')) 101 = None
   \<and> get_me example_libs
       (snd (delete_profile example_libs example_store ''5cd1f0a0b1c2d3e4f5a6b701''))
       ''5cd1f0a0b1c2d3e4f5a6b701''
     = Response 400 (ErrorsBody [MsgOnly ''There is no profile for this user''])"
  by (rule delete_removes_profile_and_user)
     (simp_all add: example_libs_simps(5) example_store_def alice_def bob_def alice_profile_def)

text \<open>
  C10: for every store and every authenticated id (one that casts), with or without a
  Profile and with or without a User, the delete answers 200 \<open>{msg: "User removed"}\<close>;
  in a store with at most one Profile per user and one User per id, a second delete
  answers the same and leaves the store the first delete left.
\<close>

theorem delete_total_and_idempotent:
  assumes "castObjectId L uid = Some i"
  shows "fst (delete_profile L s uid) = Response 200 (MsgBody ''User removed'')
       \<and> (distinct (map user (profiles s)) \<and> distinct (map user_id (users s))
            \<longrightarrow> delete_profile L (snd (delete_profile L s uid)) uid = delete_profile L s uid)"
proof -
  have "delete_profile L (snd (delete_profile L s uid)) uid = delete_profile L s uid"
    if d: "distinct (map user (profiles s))" "distinct (map user_id (users s))"
    using remove_first_twice [OF d(1), of i] remove_first_twice [OF d(2), of i]
    by (simp add: delete_profile_ok [OF assms])
  then show ?thesis
    by (simp add: delete_profile_ok [OF assms])
qed

theorem delete_total_and_idempotent_witness:
  "fst (delete_profile example_libs example_store ''5cd1f0a0b1c2d3e4f5a6b703'')
     = Response 200 (MsgBody ''User removed'')
   \<and> delete_profile example_libs
       (snd (delete_profile example_libs example_store ''5cd1f0a0b1c2d3e4f5a6b703''))
       ''5cd1f0a0b1c2d3e4f5a6b703''
     = delete_profile example_libs example_store ''5cd1f0a0b1c2d3e4f5a6b703''"
proof -
  have c: "castObjectId example_libs ''5cd1f0a0b1c2d3e4f5a6b703'' = Some 103"
    by (simp add: example_libs_simps(5))
  have d: "distinct (map user (profiles example_store))
           \<and> distinct (map user_id (users example_store))"
    by (simp add: example_store_def alice_def bob_def)
  from delete_total_and_idempotent [OF c, of example_store] d show ?thesis
    by blast
qed

section \<open>The invariants are kept\<close>

text \<open>
  The delete theorems ask for a store with at most one Profile per user and one User
  per \<open>_id\<close>. The two handlers that write keep both properties, so a store that the
  handlers built from one that has them has them too.
\<close>

lemma distinct_remove_first:
  "distinct (map k xs) \<Longrightarrow> distinct (map k (remove_first P xs))"
proof (induction xs)
  case Nil
  then show ?case by simp
next
  case (Cons a xs)
  have "set (remove_first P xs) \<subseteq> set xs"
    by (induction xs) auto
  with Cons show ?case by (auto simp: image_iff)
qed

lemma map_replace_first_same_key:
  "k y = i \<Longrightarrow> map k (replace_first (\<lambda>x. k x = i) y xs) = map k xs"
  by (induction xs) auto

lemma delete_keeps_invariants:
  assumes "distinct (map user (profiles s))" and "distinct (map user_id (users s))"
  shows "distinct (map user (profiles (snd (delete_profile L s uid))))
       \<and> distinct (map user_id (users (snd (delete_profile L s uid))))"
  using assms
  by (cases "castObjectId L uid") (simp_all add: delete_profile_def distinct_remove_first)

lemma upsert_keeps_invariants:
  assumes "distinct (map user (profiles s))"
  shows "distinct (map user (profiles (snd (upsert L s uid b new_id now))))
       \<and> users (snd (upsert L s uid b new_id now)) = users s"
proof (cases "\<exists>bd. fst (upsert L s uid b new_id now) = Response 200 bd")
  case False
  then have "snd (upsert L s uid b new_id now) = s"
    using upsert_failure_keeps_store [of L s uid b new_id now
        "fst (upsert L s uid b new_id now)" "snd (upsert L s uid b new_id now)"]
    by simp
  with assms show ?thesis by simp
next
  case True
  then obtain bd where ok:
    "upsert L s uid b new_id now = (Response 200 bd, snd (upsert L s uid b new_id now))"
    by (metis prod.collapse)
  from upsert_success [OF ok] obtain f l n i u where
    e: "profile_errors b = []"
    and b: "body_firstName b = Some f" "body_lastName b = Some l" "body_username b = Some n"
    and i: "castObjectId L uid = Some i"
    and u: "find_user_by_id s i = Some u"
    by blast
  show ?thesis
  proof (cases "find_profile_by_user s i")
    case (Some p)
    have "user (p\<lparr>user := i, firstName := f, lastName := l, username := n\<rparr>) = i"
      by simp
    from map_replace_first_same_key [where k = user, OF this, of "profiles s"] assms
    show ?thesis
      by (simp add: upsert_update [OF e b i u Some])
  next
    case None
    then have "i \<notin> user ` set (profiles s)"
      by (auto simp: find_profile_by_user_def find_None_iff)
    with assms show ?thesis
      by (simp add: upsert_create [OF e b i u None])
  qed
qed

section \<open>Responses and stored password hashes\<close>

lemma find_cong_map:
  assumes "map f xs = map f ys"
    and "\<And>x y. f x = f y \<Longrightarrow> P x = P y \<and> g x = g y"
  shows "map_option g (List.find P xs) = map_option g (List.find P ys)"
proof -
  from assms(1) have "length xs = length ys" by (rule map_eq_imp_length_eq)
  then show ?thesis
    using assms(1)
  proof (induction xs ys rule: list_induct2)
    case Nil
    then show ?case by simp
  next
    case (Cons x xs y ys)
    then have "f x = f y" and "map f xs = map f ys" by simp_all
    with assms(2) [of x y] Cons.IH show ?case by simp
  qed
qed

lemma same_public_view:
  assumes "same_public s s'"
  shows "map_option select_no_password (find_user_by_id s i)
         = map_option select_no_password (find_user_by_id s' i)"
  unfolding find_user_by_id_def
  using assms
  by (intro find_cong_map [where f = select_no_password])
     (simp_all add: same_public_def select_no_password_def)

lemma same_public_public:
  assumes "same_public s s'"
  shows "map_option select_avatar_email (find_user_by_id s i)
         = map_option select_avatar_email (find_user_by_id s' i)"
  unfolding find_user_by_id_def
  using assms
  by (intro find_cong_map [where f = select_no_password])
     (simp_all add: same_public_def select_no_password_def select_avatar_email_def)

lemma same_public_registered:
  assumes "same_public s s'"
  shows "(find_user_by_id s i = None) = (find_user_by_id s' i = None)"
  using same_public_view [OF assms, of i] by (metis option.map_disc_iff)

lemma same_public_email:
  assumes "same_public s s'"
  shows "map_option user_id (find_user_matching s P)
         = map_option user_id (find_user_matching s' P)"
  unfolding find_user_matching_def
  using assms
  by (intro find_cong_map [where f = select_no_password])
     (simp_all add: same_public_def select_no_password_def)

lemma same_public_populate:
  assumes "same_public s s'"
  shows "populate s p = populate s' p"
  by (simp add: populate_def same_public_public [OF assms])

lemma same_public_profiles: "same_public s s' \<Longrightarrow> profiles s' = profiles s"
  by (simp add: same_public_def)


lemma same_public_find_profile:
  "same_public s s' \<Longrightarrow> find_profile_by_user s' i = find_profile_by_user s i"
  by (simp add: find_profile_by_user_def same_public_def)

lemma same_public_get_auth:
  assumes "same_public s s'"
  shows "get_auth L s uid = get_auth L s' uid"
  by (cases "castObjectId L uid") (simp_all add: get_auth_def same_public_view [OF assms])

lemma same_public_get_me:
  assumes "same_public s s'"
  shows "get_me L s uid = get_me L s' uid"
  by (cases "castObjectId L uid")
     (simp_all add: get_me_def same_public_find_profile [OF assms]
        same_public_populate [OF assms] split: option.splits)

lemma same_public_get_profile_by_user:
  assumes "same_public s s'"
  shows "get_profile_by_user L s uid = get_profile_by_user L s' uid"
  by (cases "castObjectId L uid")
     (simp_all add: get_profile_by_user_def same_public_find_profile [OF assms]
        same_public_populate [OF assms] split: option.splits)

lemma same_public_get_profiles:
  assumes "same_public s s'"
  shows "get_profiles s = get_profiles s'"
  by (simp add: get_profiles_def same_public_profiles [OF assms]
      same_public_populate [OF assms])

lemma same_public_delete:
  "fst (delete_profile L s uid) = fst (delete_profile L s' uid)"
  by (cases "castObjectId L uid") (simp_all add: delete_profile_def)

lemma upsert_invalid:
  "profile_errors b \<noteq> [] \<Longrightarrow> upsert L s uid b new_id now
     = (Response 400 (ErrorsBody (profile_errors b)), s)"
  by (simp add: upsert_def)

lemma upsert_cast_error:
  assumes "profile_errors b = []" and "castObjectId L uid = None"
  shows "upsert L s uid b new_id now = (server_error, s)"
proof -
  from profile_errors_empty [OF assms(1)] obtain f l n where
    "body_firstName b = Some f" "body_lastName b = Some l" "body_username b = Some n"
    by blast
  with assms show ?thesis by (simp add: upsert_def)
qed

lemma upsert_not_registered:
  assumes "profile_errors b = []" and "castObjectId L uid = Some i"
    and "find_user_by_id s i = None"
  shows "upsert L s uid b new_id now = (bad_request ''User not registered'', s)"
proof -
  from profile_errors_empty [OF assms(1)] obtain f l n where
    "body_firstName b = Some f" "body_lastName b = Some l" "body_username b = Some n"
    by blast
  with assms show ?thesis by (simp add: upsert_def)
qed

lemma same_public_upsert:
  assumes "same_public s s'"
  shows "fst (upsert L s uid b new_id now) = fst (upsert L s' uid b new_id now)"
proof (cases "profile_errors b = []")
  case False
  then show ?thesis by (simp add: upsert_invalid)
next
  case e: True
  from profile_errors_empty [OF e] obtain f l n where
    b: "body_firstName b = Some f" "body_lastName b = Some l" "body_username b = Some n"
    by blast
  show ?thesis
  proof (cases "castObjectId L uid")
    case None
    then show ?thesis by (simp add: upsert_cast_error [OF e])
  next
    case i: (Some i)
    show ?thesis
    proof (cases "find_user_by_id s i")
      case None
      with same_public_registered [OF assms, of i] have "find_user_by_id s' i = None"
        by simp
      with None show ?thesis by (simp add: upsert_not_registered [OF e i])
    next
      case u: (Some u)
      with same_public_registered [OF assms, of i] obtain u' where
        u': "find_user_by_id s' i = Some u'" by auto
      show ?thesis
      proof (cases "find_profile_by_user s i")
        case None
        with same_public_find_profile [OF assms, of i]
        have "find_profile_by_user s' i = None" by simp
        from upsert_create [OF e b i u None] upsert_create [OF e b i u' this]
        show ?thesis by (simp add: same_public_profiles [OF assms])
      next
        case (Some p)
        with same_public_find_profile [OF assms, of i]
        have "find_profile_by_user s' i = Some p" by simp
        from upsert_update [OF e b i u Some] upsert_update [OF e b i u' this]
        show ?thesis by (simp add: same_public_profiles [OF assms])
      qed
    qed
  qed
qed

lemma login_ok:
  assumes "login L cfg s rq = Response 200 bd"
  shows "\<exists>P u secret ex t.
           email_query L (body_email rq) = Some P \<and> find_user_matching s P = Some u
           \<and> jwtSecret cfg = Some secret \<and> jwtExpiration cfg = Some ex
           \<and> jwt_sign L \<lparr>userId = toHexString L (user_id u)\<rparr> secret ex = Signed t
           \<and> bd = TokenBody t"
proof -
  have e: "login_errors L rq = []"
    using assms by (cases "login_errors L rq = []") (simp_all add: login_def)
  from assms e obtain P where q: "email_query L (body_email rq) = Some P"
    by (cases "email_query L (body_email rq)") (simp_all add: login_def server_error_def)
  from assms e q obtain u where u: "find_user_matching s P = Some u"
    by (cases "find_user_matching s P") (simp_all add: login_def bad_request_def)
  from assms e q u obtain w where w: "body_password rq = Some w"
    by (cases "body_password rq") (simp_all add: login_def server_error_def)
  from assms e q u w obtain pw where pw: "body_password rq = Some (JStr pw)"
    by (cases w) (simp_all add: login_def server_error_def)
  from assms e q u pw have m: "bcrypt_compare L pw (password u)"
    by (cases "bcrypt_compare L pw (password u)") (simp_all add: login_def bad_request_def)
  from assms e q u pw m obtain secret where k: "jwtSecret cfg = Some secret"
    by (cases "jwtSecret cfg") (simp_all add: login_def server_error_def)
  from assms e q u pw m k obtain ex where x: "jwtExpiration cfg = Some ex"
    by (cases "jwtExpiration cfg") (simp_all add: login_def server_error_def)
  from assms e q u pw m k x obtain t where
    "jwt_sign L \<lparr>userId = toHexString L (user_id u)\<rparr> secret ex = Signed t"
    "bd = TokenBody t"
    by (cases "jwt_sign L \<lparr>userId = toHexString L (user_id u)\<rparr> secret ex")
       (simp_all add: login_def server_error_def)
  with q u k x show ?thesis by blast
qed

lemma same_public_login:
  assumes "same_public s s'"
    and "login L cfg s rq = Response 200 bd"
    and "login L cfg s' rq = Response 200 bd'"
  shows "bd = bd'"
proof -
  from login_ok [OF assms(2)] obtain P u secret ex t where
    1: "email_query L (body_email rq) = Some P" "find_user_matching s P = Some u"
       "jwtSecret cfg = Some secret" "jwtExpiration cfg = Some ex"
       "jwt_sign L \<lparr>userId = toHexString L (user_id u)\<rparr> secret ex = Signed t"
       "bd = TokenBody t"
    by blast
  from login_ok [OF assms(3)] obtain P' u' secret' ex' t' where
    2: "email_query L (body_email rq) = Some P'" "find_user_matching s' P' = Some u'"
       "jwtSecret cfg = Some secret'" "jwtExpiration cfg = Some ex'"
       "jwt_sign L \<lparr>userId = toHexString L (user_id u')\<rparr> secret' ex' = Signed t'"
       "bd' = TokenBody t'"
    by blast
  from 1(1) 2(1) have "P' = P" by simp
  with same_public_email [OF assms(1), of P] 1(2) 2(2) have "user_id u' = user_id u"
    by simp
  with 1 2 show ?thesis by simp
qed

text \<open>
  C9: no answer carries a stored password hash. Two stores that differ at most in the
  password hashes of their users get the same answer from the identity fetch (the User
  without \<open>password\<close>), from the three profile reads (the Profile with \<open>_id\<close>, \<open>avatar\<close>
  and \<open>email\<close> of its User), from the upsert and from the delete; and when a login
  succeeds on both, the token is the same.
\<close>

theorem responses_hide_password_hash:
  assumes "same_public s s'"
  shows "get_auth L s uid = get_auth L s' uid
       \<and> get_me L s uid = get_me L s' uid
       \<and> get_profiles s = get_profiles s'
       \<and> get_profile_by_user L s uid = get_profile_by_user L s' uid
       \<and> fst (upsert L s uid pb new_id now) = fst (upsert L s' uid pb new_id now)
       \<and> fst (delete_profile L s uid) = fst (delete_profile L s' uid)
       \<and> (\<forall>bd bd'. login L cfg s lb = Response 200 bd \<longrightarrow> login L cfg s' lb = Response 200 bd'
             \<longrightarrow> bd = bd')"
  using same_public_get_auth [OF assms] same_public_get_me [OF assms]
    same_public_get_profiles [OF assms] same_public_get_profile_by_user [OF assms]
    same_public_upsert [OF assms] same_public_delete same_public_login [OF assms]
  by blast

lemma example_same_public: "same_public example_store rehashed_store"
  by (simp add: same_public_def example_store_def rehashed_store_def select_no_password_def)

lemma example_logins:
  "login example_libs example_config example_store
     \<lparr>body_email = Some (JStr ''b@x.com''), body_password = Some (JStr ''hunter2''),
      other_email = [], other_password = []\<rparr>
   = Response 200 (TokenBody ''jwtSecretToken.5cd1f0a0b1c2d3e4f5a6b702'')"
  "login example_libs example_config rehashed_store
     \<lparr>body_email = Some (JStr ''b@x.com''), body_password = Some (JStr ''hunter2''),
      other_email = [], other_password = []\<rparr>
   = Response 200 (TokenBody ''jwtSecretToken.5cd1f0a0b1c2d3e4f5a6b702'')"
proof -
  let ?rq = "\<lparr>body_email = Some (JStr ''b@x.com''), body_password = Some (JStr ''hunter2''),
      other_email = [], other_password = []\<rparr>"
  have v: "login_errors example_libs ?rq = []"
    by (rule login_valid [where v = "JStr ''b@x.com''" and w = "JStr ''hunter2''"])
       (simp_all add: example_libs_simps(1))
  show "login example_libs example_config example_store ?rq
          = Response 200 (TokenBody ''jwtSecretToken.5cd1f0a0b1c2d3e4f5a6b702'')"
    by (rule login_success [OF v, where e = "''b@x.com''" and u = bob
          and pw = "''hunter2''" and secret = "''jwtSecretToken''" and ex = "Seconds 360000"])
       (simp_all add: example_libs_simps(2,3,6) example_config_def example_store_finds bob_def)
  show "login example_libs example_config rehashed_store ?rq
          = Response 200 (TokenBody ''jwtSecretToken.5cd1f0a0b1c2d3e4f5a6b702'')"
    by (rule login_success [OF v, where e = "''b@x.com''" and u = bob
          and pw = "''hunter2''" and secret = "''jwtSecretToken''" and ex = "Seconds 360000"])
       (simp_all add: example_libs_simps(2,3,6) example_config_def example_store_finds bob_def)
qed

theorem responses_hide_password_hash_witness:
  "same_public example_store rehashed_store
   \<and> get_auth example_libs example_store ''5cd1f0a0b1c2d3e4f5a6b701''
     = get_auth example_libs rehashed_store ''5cd1f0a0b1c2d3e4f5a6b701''
   \<and> get_me example_libs example_store ''5cd1f0a0b1c2d3e4f5a6b701''
     = get_me example_libs rehashed_store ''5cd1f0a0b1c2d3e4f5a6b701''
   \<and> get_profiles example_store = get_profiles rehashed_store
   \<and> get_profile_by_user example_libs example_store ''5cd1f0a0b1c2d3e4f5a6b701''
     = get_profile_by_user example_libs rehashed_store ''5cd1f0a0b1c2d3e4f5a6b701''
   \<and> login example_libs example_config example_store
       \<lparr>body_email = Some (JStr ''b@x.com''), body_password = Some (JStr ''hunter2''),
        other_email = [], other_password = []\<rparr>
     = login example_libs example_config rehashed_store
         \<lparr>body_email = Some (JStr ''b@x.com''), body_password = Some (JStr ''hunter2''),
          other_email = [], other_password = []\<rparr>"
  using responses_hide_password_hash [OF example_same_public,
      of example_libs "''5cd1f0a0b1c2d3e4f5a6b701''"]
    example_same_public example_logins
  by simp

end
